theory Spec2Isabelle
  imports Complex_Main "HOL-Library.AList" "HOL-Library.Sublist"
begin

section \<open>Certificate maker: a model of Server.js\<close>

text \<open>
  The repository holds two texts of \<^verbatim>\<open>Server.js\<close>. They agree except for the
  computation of the draw position and for the clean-up after the download; the
  first text (lines 1-148) is called \<open>V1\<close> below and the second (lines 148-319,
  the one with comments) \<open>V2\<close>.

  Strings are HOL strings. The character functions of JavaScript are modelled on
  ASCII: \<^verbatim>\<open>toUpperCase\<close> maps \<open>a..z\<close> to \<open>A..Z\<close> and leaves every other
  character alone, and the white space removed by \<^verbatim>\<open>trim\<close> and skipped by
  \<^verbatim>\<open>parseInt\<close> is space, tab, line feed, vertical tab, form feed and carriage
  return. Numbers are exact rationals: the rounding of JavaScript's doubles is
  not modelled.
\<close>

datatype variant = V1 | V2

subsection \<open>String functions of the JavaScript library\<close>

definition isWhiteSpace :: "char \<Rightarrow> bool" where
  "isWhiteSpace c = ((of_char c :: nat) \<in> {9, 10, 11, 12, 13, 32})"

definition toUpperCase :: "char \<Rightarrow> char" where
  "toUpperCase c =
     (let n = (of_char c :: nat) in if 97 \<le> n \<and> n \<le> 122 then char_of (n - 32) else c)"

text \<open>\<^verbatim>\<open>s.trim()\<close>\<close>

definition trim :: "string \<Rightarrow> string" where
  "trim s = rev (dropWhile isWhiteSpace (rev (dropWhile isWhiteSpace s)))"

text \<open>
  \<^verbatim>\<open>s.split(c)\<close> for a separator of one character: the pieces between the
  occurrences of \<open>c\<close>, empty pieces included; the empty string gives one empty piece.
\<close>

fun split :: "char \<Rightarrow> string \<Rightarrow> string list" where
  "split c [] = [[]]"
| "split c (x # xs) =
     (if x = c then [] # split c xs
      else (case split c xs of [] \<Rightarrow> [[x]] | w # ws \<Rightarrow> (x # w) # ws))"

text \<open>\<^verbatim>\<open>ws.join(c)\<close>\<close>

fun join :: "char \<Rightarrow> string list \<Rightarrow> string" where
  "join c [] = []"
| "join c [w] = w"
| "join c (w # v # ws) = w @ c # join c (v # ws)"

text \<open>\<^verbatim>\<open>word.charAt(0).toUpperCase() + word.slice(1)\<close>\<close>

fun capitalize :: "string \<Rightarrow> string" where
  "capitalize [] = []"
| "capitalize (c # cs) = toUpperCase c # cs"

text \<open>
  Lines 93 and 258:
  \<^verbatim>\<open>name.trim().split(' ').map(word => word.charAt(0).toUpperCase() + word.slice(1)).join(' ')\<close>
\<close>

definition normalizeName :: "string \<Rightarrow> string" where
  "normalizeName name = join CHR '' '' (map capitalize (split CHR '' '' (trim name)))"


text \<open>
  The spec's word for a line that is ignored is "blank": a line with nothing but
  white space. The source's test is \<^verbatim>\<open>filter(Boolean)\<close>, which drops the
  empty string only.
\<close>

definition spec_blank_line :: "string \<Rightarrow> bool" where
  "spec_blank_line l = (trim l = [])"

subsection \<open>Numbers, \<^verbatim>\<open>parseInt\<close> and the draw position\<close>

datatype jsval = Num rat | NaN | Str string

definition isDigit :: "char \<Rightarrow> bool" where
  "isDigit c = (48 \<le> (of_char c :: nat) \<and> (of_char c :: nat) \<le> 57)"

definition digitsValue :: "string \<Rightarrow> int" where
  "digitsValue ds = foldl (\<lambda>acc c. 10 * acc + (int (of_char c) - 48)) 0 ds"

text \<open>
  \<^verbatim>\<open>parseInt(s, 10)\<close>: leading white space is skipped, one sign is read, then
  the longest run of decimal digits; no digit gives \<^verbatim>\<open>NaN\<close> (here \<open>None\<close>).
\<close>

definition parseInt :: "string \<Rightarrow> int option" where
  "parseInt s =
     (let t = dropWhile isWhiteSpace s;
          neg = (t \<noteq> [] \<and> hd t = CHR ''-'');
          u = (if t \<noteq> [] \<and> (hd t = CHR ''+'' \<or> hd t = CHR ''-'') then tl t else t);
          ds = takeWhile isDigit u
      in if ds = [] then None
         else Some (if neg then - digitsValue ds else digitsValue ds))"

definition parseInt10 :: "string \<Rightarrow> jsval" where
  "parseInt10 s = (case parseInt s of None \<Rightarrow> NaN | Some i \<Rightarrow> Num (of_int i))"

text \<open>
  Lines 75 and 235: \<^verbatim>\<open>const { ..., xPosition = 0, yPosition = 0 } = req.body\<close>.
  A field of the multipart body is a string; the default, the number 0, is taken
  only when the field is absent. \<open>positionValue\<close> is the variable's value and
  \<open>positionText\<close> the string \<^verbatim>\<open>parseInt\<close> reads from it.
\<close>

definition positionValue :: "string option \<Rightarrow> jsval" where
  "positionValue p = (case p of None \<Rightarrow> Num 0 | Some s \<Rightarrow> Str s)"

definition positionText :: "string option \<Rightarrow> string" where
  "positionText p = (case p of None \<Rightarrow> ''0'' | Some s \<Rightarrow> s)"

fun truthy :: "jsval \<Rightarrow> bool" where
  "truthy (Num r) = (r \<noteq> 0)"
| "truthy NaN = False"
| "truthy (Str s) = (s \<noteq> [])"

text \<open>\<^verbatim>\<open>a || b\<close>\<close>

definition js_or :: "jsval \<Rightarrow> jsval \<Rightarrow> jsval" where
  "js_or a b = (if truthy a then a else b)"

text \<open>
  Lines 103-104 (V1):
  \<^verbatim>\<open>parseInt(xPosition, 10)\<close>, \<^verbatim>\<open>parseInt(yPosition, 10)\<close>;
  lines 271-272 (V2):
  \<^verbatim>\<open>parseInt(xPosition, 10) || (template.width - textWidth) / 2\<close>,
  \<^verbatim>\<open>parseInt(yPosition, 10) || yPosition\<close>.
\<close>

definition adjustedXPosition :: "variant \<Rightarrow> string option \<Rightarrow> nat \<Rightarrow> rat \<Rightarrow> jsval" where
  "adjustedXPosition v xPos templateWidth textWidth =
     (case v of
        V1 \<Rightarrow> parseInt10 (positionText xPos)
      | V2 \<Rightarrow> js_or (parseInt10 (positionText xPos))
                 (Num ((of_nat templateWidth - textWidth) / 2)))"

definition adjustedYPosition :: "variant \<Rightarrow> string option \<Rightarrow> jsval" where
  "adjustedYPosition v yPos =
     (case v of
        V1 \<Rightarrow> parseInt10 (positionText yPos)
      | V2 \<Rightarrow> js_or (parseInt10 (positionText yPos)) (positionValue yPos))"

subsection \<open>Paths and the file system\<close>

text \<open>
  A path is absolute and normalized: the list of its segments, the root being
  \<open>[]\<close>. \<^verbatim>\<open>path.join(dir, s)\<close> walks the segments of \<open>s\<close>: an empty segment
  and \<^verbatim>\<open>.\<close> are skipped, \<^verbatim>\<open>..\<close> goes up (and stays at the root).
\<close>

type_synonym path = "string list"

fun resolve :: "path \<Rightarrow> string list \<Rightarrow> path" where
  "resolve p [] = p"
| "resolve p (seg # segs) =
     (if seg = [] \<or> seg = ''.'' then resolve p segs
      else if seg = ''..'' then resolve (butlast p) segs
      else resolve (p @ [seg]) segs)"

definition path_join :: "path \<Rightarrow> string \<Rightarrow> path" where
  "path_join dir s = resolve dir (split CHR ''/'' s)"

text \<open>
  The file system is the list of its entries, in the order of their creation: a
  directory, or a file with its bytes. The root is always a directory. The
  functions of \<^verbatim>\<open>fs\<close> below return the new file system, or the error they
  throw.
\<close>

datatype node = Dir | File string

type_synonym filesystem = "(path \<times> node) list"

datatype exn =
    ENOENT | EEXIST | EISDIR | ENOTDIR
  | ImageError | TypeError | AxiosError string

definition lookup :: "filesystem \<Rightarrow> path \<Rightarrow> node option" where
  "lookup fsys p = (if p = [] then Some Dir else map_of fsys p)"

definition existsSync :: "filesystem \<Rightarrow> path \<Rightarrow> bool" where
  "existsSync fsys p = (lookup fsys p \<noteq> None)"

definition parentError :: "filesystem \<Rightarrow> path \<Rightarrow> exn option" where
  "parentError fsys p =
     (case lookup fsys (butlast p) of
        None \<Rightarrow> Some ENOENT
      | Some (File d) \<Rightarrow> Some ENOTDIR
      | Some Dir \<Rightarrow> None)"

definition mkdirSync :: "path \<Rightarrow> filesystem \<Rightarrow> exn + filesystem" where
  "mkdirSync p fsys =
     (if lookup fsys p \<noteq> None then Inl EEXIST
      else (case parentError fsys p of
              Some x \<Rightarrow> Inl x
            | None \<Rightarrow> Inr (fsys @ [(p, Dir)])))"

definition readFileSync :: "filesystem \<Rightarrow> path \<Rightarrow> exn + string" where
  "readFileSync fsys p =
     (case lookup fsys p of
        None \<Rightarrow> Inl ENOENT
      | Some Dir \<Rightarrow> Inl EISDIR
      | Some (File d) \<Rightarrow> Inr d)"

definition writeFileSync :: "path \<Rightarrow> string \<Rightarrow> filesystem \<Rightarrow> exn + filesystem" where
  "writeFileSync p d fsys =
     (case parentError fsys p of
        Some x \<Rightarrow> Inl x
      | None \<Rightarrow>
          (case lookup fsys p of
             Some Dir \<Rightarrow> Inl EISDIR
           | _ \<Rightarrow> Inr (AList.update p (File d) fsys)))"

definition children :: "filesystem \<Rightarrow> path \<Rightarrow> path list" where
  "children fsys p = filter (\<lambda>q. q \<noteq> [] \<and> butlast q = p) (map fst fsys)"

definition readdirSync :: "filesystem \<Rightarrow> path \<Rightarrow> exn + string list" where
  "readdirSync fsys p =
     (case lookup fsys p of
        None \<Rightarrow> Inl ENOENT
      | Some (File d) \<Rightarrow> Inl ENOTDIR
      | Some Dir \<Rightarrow> Inr (map last (children fsys p)))"

text \<open>\<^verbatim>\<open>fs.removeSync(p)\<close> of fs-extra: \<open>p\<close> and all below it; a missing \<open>p\<close> is no error.\<close>

definition removeSync :: "path \<Rightarrow> filesystem \<Rightarrow> filesystem" where
  "removeSync p fsys = filter (\<lambda>(q, n). \<not> prefix p q) fsys"

text \<open>\<^verbatim>\<open>mkdirsSync\<close> of fs-extra: the directory and its missing ancestors.\<close>

fun mkdirsFrom :: "path \<Rightarrow> string list \<Rightarrow> filesystem \<Rightarrow> exn option \<times> filesystem" where
  "mkdirsFrom base [] fsys = (None, fsys)"
| "mkdirsFrom base (seg # segs) fsys =
     (case lookup fsys (base @ [seg]) of
        Some (File d) \<Rightarrow> (Some (if segs = [] then EEXIST else ENOTDIR), fsys)
      | Some Dir \<Rightarrow> mkdirsFrom (base @ [seg]) segs fsys
      | None \<Rightarrow> mkdirsFrom (base @ [seg]) segs (fsys @ [(base @ [seg], Dir)]))"

text \<open>
  \<^verbatim>\<open>fs.emptyDirSync(dir)\<close> of fs-extra: every item of the directory is removed;
  when the directory cannot be listed it is created.
\<close>

definition emptyDirSync :: "path \<Rightarrow> filesystem \<Rightarrow> exn option \<times> filesystem" where
  "emptyDirSync dir fsys =
     (case readdirSync fsys dir of
        Inl x \<Rightarrow> mkdirsFrom [] dir fsys
      | Inr items \<Rightarrow> (None, foldl (\<lambda>f item. removeSync (dir @ [item]) f) fsys items))"

subsection \<open>The server's state and its surroundings\<close>

text \<open>
  What a handler can change: the files, the fonts registered with the drawing
  library (family and file), and the lines written to the console.
\<close>

record server =
  files :: filesystem
  fonts :: "(string \<times> path) list"
  console :: "string list"

record image =
  width :: nat
  height :: nat
  pixels :: string

text \<open>
  The canvas of one certificate: its size, the image drawn at the origin, and the
  one \<^verbatim>\<open>fillText\<close> call with the font and fill style set before it.
\<close>

record canvas =
  canvas_width :: nat
  canvas_height :: nat
  drawImage :: image
  ctx_font :: string
  ctx_fillStyle :: string
  fillText_text :: string
  fillText_x :: jsval
  fillText_y :: jsval

datatype json =
    JNull | JBool bool | JNumber int | JString string
  | JArray "json list" | JObject "(string \<times> json) list"

text \<open>
  The libraries and the process around the handlers: \<^verbatim>\<open>__dirname\<close>, the image
  decoder behind \<^verbatim>\<open>loadImage\<close>, \<^verbatim>\<open>ctx.measureText(name).width\<close> for a
  font, the PNG encoder behind \<^verbatim>\<open>canvas.toBuffer\<close>, the bytes \<^verbatim>\<open>writeZip\<close>
  produces for a list of entries, \<^verbatim>\<open>process.env.APIKEY\<close>, and the answer of
  \<^verbatim>\<open>axios.get\<close> for a URL (\<open>Inl\<close>: it throws, with the error's detail;
  \<open>Inr\<close>: \<^verbatim>\<open>response.data\<close>).
\<close>

record env =
  dirname :: path
  decodeImage :: "string \<Rightarrow> image option"
  measureText :: "string \<Rightarrow> string \<Rightarrow> rat"
  toBuffer :: "canvas \<Rightarrow> string"
  zipBytes :: "(string \<times> string) list \<Rightarrow> string"
  APIKEY :: "string option"
  axios_get :: "string \<Rightarrow> string + json"

text \<open>
  A request to \<^verbatim>\<open>/generate-certificates\<close> after multer has stored the uploads:
  \<^verbatim>\<open>req.files.template[0].path\<close> and \<^verbatim>\<open>req.files.participants[0].path\<close>
  (resolved against the working directory; \<open>None\<close> when the field is missing)
  and the optional fields of \<^verbatim>\<open>req.body\<close>.
\<close>

record request =
  template :: "path option"
  participants :: "path option"
  fontFamily :: "string option"
  fontSize :: "string option"
  fontColor :: "string option"
  xPosition :: "string option"
  yPosition :: "string option"

text \<open>
  How \<^verbatim>\<open>res.download\<close> ends: the archive is sent; it fails before the response
  headers are sent; or it fails once they are sent (the caller went away).
\<close>

datatype stream_outcome = Delivered | FailedBeforeHeaders | FailedAfterHeaders

datatype response =
    Json nat json
  | Send nat string
  | Download string string
  | PartialDownload string

definition errorBody :: "string \<Rightarrow> json" where
  "errorBody msg = JObject [(''error'', JString msg)]"

definition describe :: "exn \<Rightarrow> string" where
  "describe x = (case x of AxiosError d \<Rightarrow> d | _ \<Rightarrow> ''Error'')"

definition logLine :: "string \<Rightarrow> server \<Rightarrow> server" where
  "logLine l st = st\<lparr>console := console st @ [l]\<rparr>"

subsection \<open>Font registry (lines 19-37)\<close>

definition endsWith :: "string \<Rightarrow> string \<Rightarrow> bool" where
  "endsWith s suf = suffix suf s"

text \<open>\<^verbatim>\<open>path.extname\<close> and \<^verbatim>\<open>path.basename(file, ext)\<close> on a file name without separator.\<close>

definition extname :: "string \<Rightarrow> string" where
  "extname f =
     (let e = rev (takeWhile (\<lambda>c. c \<noteq> CHR ''.'') (rev f))
      in if CHR ''.'' \<notin> set f \<or> length e + 1 = length f then [] else CHR ''.'' # e)"

definition basename :: "string \<Rightarrow> string \<Rightarrow> string" where
  "basename f ext =
     (if ext \<noteq> [] \<and> suffix ext f \<and> f \<noteq> ext then take (length f - length ext) f else f)"

definition registerFontFile :: "path \<Rightarrow> server \<Rightarrow> string \<Rightarrow> server" where
  "registerFontFile fontsDir st file =
     (if endsWith file ''.ttf'' \<or> endsWith file ''.otf''
      then (let fontPath = path_join fontsDir file;
                family = basename file (extname file)
            in logLine (''Registered font: '' @ family)
                 (st\<lparr>fonts := fonts st @ [(family, fontPath)]\<rparr>))
      else st)"

definition loadAndRegisterFonts :: "env \<Rightarrow> server \<Rightarrow> exn + server" where
  "loadAndRegisterFonts e st =
     (let fontsDir = path_join (dirname e) ''fonts''
      in if \<not> existsSync (files st) fontsDir
         then Inr (logLine ''Fonts directory not found'' st)
         else (case readdirSync (files st) fontsDir of
                 Inl x \<Rightarrow> Inl x
               | Inr fontFiles \<Rightarrow> Inr (foldl (registerFontFile fontsDir) st fontFiles)))"

subsection \<open>Font catalog proxy (lines 39-53 and 193-208)\<close>

text \<open>
  Reading a property: of \<^verbatim>\<open>undefined\<close> (here \<open>None\<close>) and of \<^verbatim>\<open>null\<close> it
  throws; an object gives the property or \<^verbatim>\<open>undefined\<close>; the other values have
  none of the properties read here.
\<close>

definition getProp :: "json option \<Rightarrow> string \<Rightarrow> exn + json option" where
  "getProp v k =
     (case v of
        None \<Rightarrow> Inl TypeError
      | Some JNull \<Rightarrow> Inl TypeError
      | Some (JObject kvs) \<Rightarrow> Inr (map_of kvs k)
      | Some _ \<Rightarrow> Inr None)"

text \<open>A property that is \<^verbatim>\<open>undefined\<close> is left out when \<^verbatim>\<open>res.json\<close> writes the object.\<close>

definition field :: "string \<Rightarrow> json option \<Rightarrow> (string \<times> json) list" where
  "field k v = (case v of None \<Rightarrow> [] | Some j \<Rightarrow> [(k, j)])"

text \<open>\<^verbatim>\<open>font => ({ family: font.family, variants: font.variants })\<close>\<close>

definition fontEntry :: "json \<Rightarrow> exn + json" where
  "fontEntry font =
     (case getProp (Some font) ''family'' of
        Inl x \<Rightarrow> Inl x
      | Inr fam \<Rightarrow>
          (case getProp (Some font) ''variants'' of
             Inl x \<Rightarrow> Inl x
           | Inr vars \<Rightarrow> Inr (JObject (field ''family'' fam @ field ''variants'' vars))))"

fun mapFonts :: "json list \<Rightarrow> exn + json list" where
  "mapFonts [] = Inr []"
| "mapFonts (font # rest) =
     (case fontEntry font of
        Inl x \<Rightarrow> Inl x
      | Inr j \<Rightarrow> (case mapFonts rest of Inl x \<Rightarrow> Inl x | Inr js \<Rightarrow> Inr (j # js)))"

definition apiUrl :: "env \<Rightarrow> string" where
  "apiUrl e =
     ''https://www.googleapis.com/webfonts/v1/webfonts?key='' @
       (case APIKEY e of None \<Rightarrow> ''undefined'' | Some k \<Rightarrow> k)"

text \<open>The body of the \<^verbatim>\<open>try\<close> up to \<^verbatim>\<open>res.json(fonts)\<close>.\<close>

definition fetchFonts :: "env \<Rightarrow> exn + json list" where
  "fetchFonts e =
     (case axios_get e (apiUrl e) of
        Inl detail \<Rightarrow> Inl (AxiosError detail)
      | Inr data \<Rightarrow>
          (case getProp (Some data) ''items'' of
             Inl x \<Rightarrow> Inl x
           | Inr items \<Rightarrow>
               (case items of
                  Some (JArray fs) \<Rightarrow> mapFonts fs
                | _ \<Rightarrow> Inl TypeError)))"

definition get_fonts :: "env \<Rightarrow> server \<Rightarrow> response \<times> server" where
  "get_fonts e st =
     (case fetchFonts e of
        Inr fs \<Rightarrow> (Json 200 (JArray fs), st)
      | Inl x \<Rightarrow>
          (Json 500 (errorBody ''Failed to fetch fonts.''),
           logLine (''Error fetching fonts from Google API: '' @ describe x) st))"


subsection \<open>Certificate generation (lines 55-144 and 211-315)\<close>

text \<open>\<^verbatim>\<open>`${fontSize}px ${fontFamily}`\<close> with the defaults of lines 75 and 235.\<close>

definition fontSetting :: "request \<Rightarrow> string" where
  "fontSetting req =
     (case fontSize req of None \<Rightarrow> ''80'' | Some s \<Rightarrow> s) @ ''px '' @
     (case fontFamily req of None \<Rightarrow> ''Lato'' | Some f \<Rightarrow> f)"

text \<open>Lines 95-106 and 260-274: the canvas of one (normalized) name.\<close>

definition drawCertificate :: "variant \<Rightarrow> env \<Rightarrow> request \<Rightarrow> image \<Rightarrow> string \<Rightarrow> canvas" where
  "drawCertificate v e req tmpl name =
     (let textWidth = measureText e (fontSetting req) name
      in \<lparr>canvas_width = width tmpl,
          canvas_height = height tmpl,
          drawImage = tmpl,
          ctx_font = fontSetting req,
          ctx_fillStyle = (case fontColor req of None \<Rightarrow> ''gold'' | Some c \<Rightarrow> c),
          fillText_text = name,
          fillText_x = adjustedXPosition v (xPosition req) (width tmpl) textWidth,
          fillText_y = adjustedYPosition v (yPosition req)\<rparr>)"

text \<open>One turn of the loop of lines 92-111 and 257-280.\<close>

definition generateCertificate ::
  "variant \<Rightarrow> env \<Rightarrow> request \<Rightarrow> image \<Rightarrow> path \<Rightarrow> string \<Rightarrow> filesystem \<Rightarrow> exn + filesystem" where
  "generateCertificate v e req tmpl certificatesDir raw fsys =
     (let name = normalizeName raw;
          cv = drawCertificate v e req tmpl name;
          certPath = path_join certificatesDir (name @ ''.png'')
      in writeFileSync certPath (toBuffer e cv) fsys)"

text \<open>The loop: a throw leaves it, and what was written before stays.\<close>

fun generateAll ::
  "variant \<Rightarrow> env \<Rightarrow> request \<Rightarrow> image \<Rightarrow> path \<Rightarrow> string list \<Rightarrow> filesystem
     \<Rightarrow> exn option \<times> filesystem" where
  "generateAll v e req tmpl certificatesDir [] fsys = (None, fsys)"
| "generateAll v e req tmpl certificatesDir (raw # rest) fsys =
     (case generateCertificate v e req tmpl certificatesDir raw fsys of
        Inl x \<Rightarrow> (Some x, fsys)
      | Inr fsys' \<Rightarrow> generateAll v e req tmpl certificatesDir rest fsys')"

text \<open>
  Lines 113-116: \<^verbatim>\<open>zip.addLocalFile(path.join(certificatesDir, file))\<close> for
  every name \<^verbatim>\<open>readdirSync\<close> lists; the entry is named by the file and holds
  its bytes.
\<close>

fun addLocalFiles :: "filesystem \<Rightarrow> path \<Rightarrow> string list \<Rightarrow> exn + (string \<times> string) list" where
  "addLocalFiles fsys dir [] = Inr []"
| "addLocalFiles fsys dir (file # rest) =
     (case readFileSync fsys (path_join dir file) of
        Inl x \<Rightarrow> Inl x
      | Inr d \<Rightarrow>
          (case addLocalFiles fsys dir rest of
             Inl x \<Rightarrow> Inl x
           | Inr es \<Rightarrow> Inr ((file, d) # es)))"

definition zipEntries :: "filesystem \<Rightarrow> path \<Rightarrow> exn + (string \<times> string) list" where
  "zipEntries fsys certificatesDir =
     (case readdirSync fsys certificatesDir of
        Inl x \<Rightarrow> Inl x
      | Inr fileList \<Rightarrow> addLocalFiles fsys certificatesDir fileList)"

definition certificatesDir :: "env \<Rightarrow> path" where
  "certificatesDir e = path_join (dirname e) ''certificates/''"

definition zipPath :: "env \<Rightarrow> path" where
  "zipPath e = path_join (dirname e) ''certificates.zip''"

definition uploadsDir :: "env \<Rightarrow> path" where
  "uploadsDir e = path_join (dirname e) ''uploads''"

text \<open>Lines 87-119 and 251-290: the directory, the loop, the archive.\<close>

definition generateAndZip ::
  "variant \<Rightarrow> env \<Rightarrow> request \<Rightarrow> image \<Rightarrow> string list \<Rightarrow> filesystem \<Rightarrow> exn option \<times> filesystem" where
  "generateAndZip v e req tmpl participantNames fsys =
     (case (if \<not> existsSync fsys (certificatesDir e)
            then mkdirSync (certificatesDir e) fsys else Inr fsys) of
        Inl x \<Rightarrow> (Some x, fsys)
      | Inr fs1 \<Rightarrow>
          (case generateAll v e req tmpl (certificatesDir e) participantNames fs1 of
             (Some x, fs2) \<Rightarrow> (Some x, fs2)
           | (None, fs2) \<Rightarrow>
               (case zipEntries fs2 (certificatesDir e) of
                  Inl x \<Rightarrow> (Some x, fs2)
                | Inr entries \<Rightarrow>
                    (case writeFileSync (zipPath e) (zipBytes e entries) fs2 of
                       Inl x \<Rightarrow> (Some x, fs2)
                     | Inr fs3 \<Rightarrow> (None, fs3)))))"

text \<open>
  The clean-up in the callback of \<^verbatim>\<open>res.download\<close>, lines 127-135 (V1, which
  empties the uploads directory first) and 300-306 (V2). A throw is caught and
  logged, and skips the rest of the block.
\<close>

definition cleanup :: "variant \<Rightarrow> env \<Rightarrow> server \<Rightarrow> server" where
  "cleanup v e st =
     (case (case v of
              V1 \<Rightarrow> emptyDirSync (uploadsDir e) (files st)
            | V2 \<Rightarrow> (None, files st)) of
        (Some x, fs1) \<Rightarrow> logLine ''Error during cleanup'' (st\<lparr>files := fs1\<rparr>)
      | (None, fs1) \<Rightarrow>
          st\<lparr>files := removeSync (zipPath e) (removeSync (certificatesDir e) fs1)\<rparr>)"

text \<open>
  Lines 121-136 and 293-307: \<^verbatim>\<open>res.download\<close> and its callback. On an error
  the callback calls \<^verbatim>\<open>res.status(500).send(...)\<close> before the clean-up; once the
  headers are sent that call throws \<^verbatim>\<open>ERR_HTTP_HEADERS_SENT\<close> (which is why the
  \<^verbatim>\<open>catch\<close> of lines 139 and 310 tests \<^verbatim>\<open>res.headersSent\<close>), the callback
  ends there, and the clean-up is not reached.
\<close>

definition download :: "variant \<Rightarrow> env \<Rightarrow> stream_outcome \<Rightarrow> server \<Rightarrow> response \<times> server" where
  "download v e out st =
     (case readFileSync (files st) (zipPath e) of
        Inl x \<Rightarrow>
          (Send 500 ''An error occurred while downloading the ZIP file.'',
           cleanup v e (logLine ''Error sending ZIP file'' st))
      | Inr bytes \<Rightarrow>
          (case out of
             Delivered \<Rightarrow> (Download ''certificates.zip'' bytes, cleanup v e st)
           | FailedBeforeHeaders \<Rightarrow>
               (Send 500 ''An error occurred while downloading the ZIP file.'',
                cleanup v e (logLine ''Error sending ZIP file'' st))
           | FailedAfterHeaders \<Rightarrow>
               (PartialDownload ''certificates.zip'', logLine ''Error sending ZIP file'' st)))"

text \<open>\<^verbatim>\<open>await loadImage(templatePath)\<close>\<close>

definition loadImage :: "env \<Rightarrow> filesystem \<Rightarrow> path \<Rightarrow> exn + image" where
  "loadImage e fsys p =
     (case readFileSync fsys p of
        Inl x \<Rightarrow> Inl x
      | Inr d \<Rightarrow> (case decodeImage e d of None \<Rightarrow> Inl ImageError | Some im \<Rightarrow> Inr im))"

text \<open>\<^verbatim>\<open>fs.readFileSync(participantsPath, 'utf-8').split('\n').filter(Boolean)\<close>\<close>

definition participantNames :: "string \<Rightarrow> string list" where
  "participantNames text = filter (\<lambda>l. l \<noteq> []) (split (CHR 0x0A) text)"

text \<open>
  The body of the \<^verbatim>\<open>try\<close> from line 75 (235) on: \<open>Inl\<close> is a throw, \<open>Inr\<close> the
  response of a \<^verbatim>\<open>return\<close> or of the download.
\<close>

definition tryGenerate ::
  "variant \<Rightarrow> env \<Rightarrow> stream_outcome \<Rightarrow> request \<Rightarrow> path \<Rightarrow> path \<Rightarrow> server
     \<Rightarrow> (exn + response) \<times> server" where
  "tryGenerate v e out req templatePath participantsPath st =
     (case loadAndRegisterFonts e st of
        Inl x \<Rightarrow> (Inl x, st)
      | Inr st1 \<Rightarrow>
          (case loadImage e (files st1) templatePath of
             Inl x \<Rightarrow> (Inl x, st1)
           | Inr tmpl \<Rightarrow>
               (case readFileSync (files st1) participantsPath of
                  Inl x \<Rightarrow> (Inl x, st1)
                | Inr text \<Rightarrow>
                    (if participantNames text = []
                     then (Inr (Json 400 (errorBody ''The participants list is empty.'')), st1)
                     else (case generateAndZip v e req tmpl (participantNames text) (files st1) of
                             (Some x, fs') \<Rightarrow> (Inl x, st1\<lparr>files := fs'\<rparr>)
                           | (None, fs') \<Rightarrow>
                               (case download v e out (st1\<lparr>files := fs'\<rparr>) of
                                  (r, st2) \<Rightarrow> (Inr r, st2)))))))"

text \<open>The handler of \<^verbatim>\<open>POST /generate-certificates\<close>.\<close>

definition generate_certificates ::
  "variant \<Rightarrow> env \<Rightarrow> stream_outcome \<Rightarrow> request \<Rightarrow> server \<Rightarrow> response \<times> server" where
  "generate_certificates v e out req st =
     (case template req of
        None \<Rightarrow>
          (Json 400 (errorBody ''Please upload both the template and participants files.''), st)
      | Some templatePath \<Rightarrow>
          (case participants req of
             None \<Rightarrow>
               (Json 400 (errorBody ''Please upload both the template and participants files.''), st)
           | Some participantsPath \<Rightarrow>
               (if \<not> existsSync (files st) templatePath
                then (Json 400 (errorBody ''Template file does not exist.''), st)
                else if \<not> existsSync (files st) participantsPath
                then (Json 400 (errorBody ''Participants file does not exist.''), st)
                else (case tryGenerate v e out req templatePath participantsPath st of
                        (Inr r, st') \<Rightarrow> (r, st')
                      | (Inl x, st') \<Rightarrow>
                          (Send 500 ''An error occurred while generating certificates.'',
                           logLine ''Error generating certificates'' st')))))"

subsection \<open>A small installation, for the evaluations below\<close>

definition demo_env :: env where
  "demo_env =
     \<lparr>dirname = [''srv''],
      decodeImage = (\<lambda>d. if d = ''IMG'' then Some \<lparr>width = 1000, height = 700, pixels = d\<rparr> else None),
      measureText = (\<lambda>f t. of_nat (40 * length t)),
      toBuffer = (\<lambda>cv. ''PNG '' @ fillText_text cv),
      zipBytes = (\<lambda>es. concat (map (\<lambda>(n, d). n @ '':'' @ d @ '';'') es)),
      APIKEY = Some ''secret'',
      axios_get = (\<lambda>u. Inl (''Request failed: '' @ u))\<rparr>"

definition demo_files :: "string \<Rightarrow> filesystem" where
  "demo_files text =
     [([''srv''], Dir),
      ([''srv'', ''uploads''], Dir),
      ([''srv'', ''uploads'', ''t1''], File ''IMG''),
      ([''srv'', ''uploads'', ''p1''], File text)]"

definition demo_server :: "string \<Rightarrow> server" where
  "demo_server text = \<lparr>files = demo_files text, fonts = [], console = []\<rparr>"

definition demo_request :: "string option \<Rightarrow> string option \<Rightarrow> request" where
  "demo_request x y =
     \<lparr>template = Some [''srv'', ''uploads'', ''t1''],
      participants = Some [''srv'', ''uploads'', ''p1''],
      fontFamily = None, fontSize = None, fontColor = None,
      xPosition = x, yPosition = y\<rparr>"


definition demo_item :: "(string \<times> json) list" where
  "demo_item =
     [(''family'', JString ''Lato''),
      (''variants'', JArray [JString ''regular'']),
      (''version'', JString ''v24'')]"

definition demo_items :: "json list" where
  "demo_items = [JObject demo_item]"

definition demo_catalog :: "(string \<times> json) list" where
  "demo_catalog = [(''kind'', JString ''webfonts#webfontList''), (''items'', JArray demo_items)]"

definition demo_upstream_env :: env where
  "demo_upstream_env = demo_env\<lparr>axios_get := (\<lambda>u. Inr (JObject demo_catalog))\<rparr>"





section \<open>Properties\<close>

subsection \<open>Characters, splitting and trimming\<close>






lemma split_not_Nil: "split c s \<noteq> []"
  by (induction s) (auto split: list.splits)

lemma join_split: "join c (split c s) = s"
proof (induction s)
  case Nil
  show ?case by simp
next
  case (Cons x xs)
  obtain w ws where sp: "split c xs = w # ws"
    using split_not_Nil [of c xs] by (cases "split c xs") auto
  show ?case
  proof (cases "x = c")
    case True
    with Cons sp show ?thesis by simp
  next
    case False
    with Cons sp show ?thesis by (cases ws) auto
  qed
qed












subsection \<open>Claims about the name normalization\<close>






subsection \<open>Claims about the draw position\<close>

lemma parseInt10_Some: "parseInt s = Some i \<Longrightarrow> parseInt10 s = Num (of_int i)"
  by (simp add: parseInt10_def)

lemma parseInt10_None: "parseInt s = None \<Longrightarrow> parseInt10 s = NaN"
  by (simp add: parseInt10_def)





text \<open>
  C8. In V2 an X position that parses to 0 is not used: the text is placed at the
  horizontal centre \<^verbatim>\<open>(template.width - textWidth) / 2\<close>. The X coordinate is 0
  only when that centre is 0, whatever position was supplied.
\<close>

theorem zero_x_position_is_centred_in_V2:
  "(parseInt (positionText p) = Some 0 \<longrightarrow>
      adjustedXPosition V2 p w tw = Num ((of_nat w - tw) / 2)) \<and>
   (adjustedXPosition V2 p w tw = Num 0 \<longrightarrow> of_nat w = tw)"
proof (cases "parseInt (positionText p)")
  case None
  then show ?thesis
    by (simp add: adjustedXPosition_def parseInt10_None js_or_def)
next
  case (Some i)
  then show ?thesis
    by (simp add: adjustedXPosition_def parseInt10_Some js_or_def)
qed

theorem zero_x_position_is_centred_in_V2_witness:
  "adjustedXPosition V2 (Some ''0'') 1000 200 = Num 400 \<and>
   adjustedXPosition V2 (Some ''0'') 200 200 = Num 0"
proof -
  have p: "parseInt (positionText (Some ''0'')) = Some 0" by code_simp
  from zero_x_position_is_centred_in_V2 [of "Some ''0''" 1000 200]
    zero_x_position_is_centred_in_V2 [of "Some ''0''" 200 200] p
  show ?thesis by simp
qed



subsection \<open>Claim about the font catalog proxy\<close>

lemma mapFonts_length: "mapFonts items = Inr fs \<Longrightarrow> length fs = length items"
  by (induction items arbitrary: fs) (auto split: sum.splits)

lemma mapFonts_nth:
  "mapFonts items = Inr fs \<Longrightarrow> i < length items \<Longrightarrow> fontEntry (items ! i) = Inr (fs ! i)"
proof (induction items arbitrary: fs i)
  case Nil
  then show ?case by simp
next
  case (Cons a items)
  then show ?case by (cases i) (auto split: sum.splits)
qed

lemma fontEntry_total: "font \<noteq> JNull \<Longrightarrow> \<exists>j. fontEntry font = Inr j"
  by (cases font) (simp_all add: fontEntry_def getProp_def)

lemma mapFonts_total: "JNull \<notin> set items \<Longrightarrow> \<exists>fs. mapFonts items = Inr fs"
proof (induction items)
  case Nil
  then show ?case by simp
next
  case (Cons a items)
  then obtain fs where "mapFonts items = Inr fs" by auto
  moreover from Cons.prems obtain j where "fontEntry a = Inr j"
    using fontEntry_total [of a] by auto
  ultimately show ?case by simp
qed

lemma fontEntry_object:
  "map_of kvs ''family'' = Some f \<Longrightarrow> map_of kvs ''variants'' = Some vs \<Longrightarrow>
   fontEntry (JObject kvs) = Inr (JObject [(''family'', f), (''variants'', vs)])"
  by (simp add: fontEntry_def getProp_def field_def)

text \<open>
  C6. When the upstream call succeeds with an item list, \<^verbatim>\<open>GET /fonts\<close> answers
  200 with an array that has one element per upstream item, in order, the element
  of an item with a family and variants being the pair of the two. When the
  upstream call fails, and on any other failure of the handler, the answer is 500
  with the fixed body \<^verbatim>\<open>{error: 'Failed to fetch fonts.'}\<close>: neither the detail
  of the error nor the API key is in it.
\<close>

theorem get_fonts_contract:
  "(\<forall>kvs items.
      axios_get e (apiUrl e) = Inr (JObject kvs) \<and>
      map_of kvs ''items'' = Some (JArray items) \<and> JNull \<notin> set items \<longrightarrow>
      (\<exists>fs. get_fonts e st = (Json 200 (JArray fs), st) \<and>
            length fs = length items \<and>
            (\<forall>i < length items. \<forall>ikv f vs.
               items ! i = JObject ikv \<and> map_of ikv ''family'' = Some f \<and>
               map_of ikv ''variants'' = Some vs \<longrightarrow>
               fs ! i = JObject [(''family'', f), (''variants'', vs)]))) \<and>
   (\<forall>detail. axios_get e (apiUrl e) = Inl detail \<longrightarrow>
      fst (get_fonts e st) = Json 500 (JObject [(''error'', JString ''Failed to fetch fonts.'')])) \<and>
   (\<forall>x. fetchFonts e = Inl x \<longrightarrow>
      fst (get_fonts e st) = Json 500 (JObject [(''error'', JString ''Failed to fetch fonts.'')]))"
proof (intro conjI allI impI)
  fix kvs items
  assume a: "axios_get e (apiUrl e) = Inr (JObject kvs) \<and>
      map_of kvs ''items'' = Some (JArray items) \<and> JNull \<notin> set items"
  then obtain fs where m: "mapFonts items = Inr fs"
    using mapFonts_total [of items] by auto
  with a have g: "get_fonts e st = (Json 200 (JArray fs), st)"
    by (simp add: get_fonts_def fetchFonts_def getProp_def)
  have "\<And>i ikv f vs. i < length items \<Longrightarrow> items ! i = JObject ikv \<Longrightarrow>
      map_of ikv ''family'' = Some f \<Longrightarrow> map_of ikv ''variants'' = Some vs \<Longrightarrow>
      fs ! i = JObject [(''family'', f), (''variants'', vs)]"
  proof -
    fix i ikv f vs
    assume "i < length items" "items ! i = JObject ikv"
      "map_of ikv ''family'' = Some f" "map_of ikv ''variants'' = Some vs"
    with mapFonts_nth [OF m, of i] fontEntry_object [of ikv f vs]
    show "fs ! i = JObject [(''family'', f), (''variants'', vs)]" by simp
  qed
  with g mapFonts_length [OF m]
  show "\<exists>fs. get_fonts e st = (Json 200 (JArray fs), st) \<and>
            length fs = length items \<and>
            (\<forall>i < length items. \<forall>ikv f vs.
               items ! i = JObject ikv \<and> map_of ikv ''family'' = Some f \<and>
               map_of ikv ''variants'' = Some vs \<longrightarrow>
               fs ! i = JObject [(''family'', f), (''variants'', vs)])"
    by blast
next
  fix detail
  assume "axios_get e (apiUrl e) = Inl detail"
  then show "fst (get_fonts e st) =
      Json 500 (JObject [(''error'', JString ''Failed to fetch fonts.'')])"
    by (simp add: get_fonts_def fetchFonts_def errorBody_def)
next
  fix x
  assume "fetchFonts e = Inl x"
  then show "fst (get_fonts e st) =
      Json 500 (JObject [(''error'', JString ''Failed to fetch fonts.'')])"
    by (simp add: get_fonts_def errorBody_def)
qed

theorem get_fonts_contract_witness:
  "fst (get_fonts demo_env (demo_server [])) =
     Json 500 (JObject [(''error'', JString ''Failed to fetch fonts.'')]) \<and>
   fst (get_fonts demo_upstream_env (demo_server [])) =
     Json 200 (JArray [JObject [(''family'', JString ''Lato''),
                                (''variants'', JArray [JString ''regular''])]])"
proof -
  have f: "axios_get demo_env (apiUrl demo_env) =
      Inl ''Request failed: https://www.googleapis.com/webfonts/v1/webfonts?key=secret''"
    by code_simp
  have s: "axios_get demo_upstream_env (apiUrl demo_upstream_env) = Inr (JObject demo_catalog)"
    by (simp add: demo_upstream_env_def)
  have i: "map_of demo_catalog ''items'' = Some (JArray demo_items)"
    by (simp add: demo_catalog_def)
  have n: "JNull \<notin> set demo_items" by (simp add: demo_items_def)
  have o: "demo_items ! 0 = JObject demo_item \<and> length demo_items = 1"
    by (simp add: demo_items_def)
  have k: "map_of demo_item ''family'' = Some (JString ''Lato'') \<and>
      map_of demo_item ''variants'' = Some (JArray [JString ''regular''])"
    by (simp add: demo_item_def)
  from get_fonts_contract [of demo_upstream_env "demo_server []"] s i n
  obtain fs where g: "get_fonts demo_upstream_env (demo_server []) = (Json 200 (JArray fs), demo_server [])"
    and l: "length fs = length demo_items"
    and e: "\<forall>i < length demo_items. \<forall>ikv f vs.
               demo_items ! i = JObject ikv \<and> map_of ikv ''family'' = Some f \<and>
               map_of ikv ''variants'' = Some vs \<longrightarrow>
               fs ! i = JObject [(''family'', f), (''variants'', vs)]"
    by blast
  from e o k have "fs ! 0 = JObject [(''family'', JString ''Lato''),
      (''variants'', JArray [JString ''regular''])]"
    by auto
  moreover from l o have "length fs = 1" by simp
  ultimately have "fs = [JObject [(''family'', JString ''Lato''),
      (''variants'', JArray [JString ''regular''])]]"
    by (cases fs) auto
  with g get_fonts_contract [of demo_env "demo_server []"] f show ?thesis by simp
qed


subsection \<open>Paths and the file system\<close>



lemma certificatesDir_eq: "certificatesDir e = dirname e @ [''certificates'']"
  by (simp add: certificatesDir_def path_join_def)

lemma zipPath_eq: "zipPath e = dirname e @ [''certificates.zip'']"
  by (simp add: zipPath_def path_join_def)

lemma uploadsDir_eq: "uploadsDir e = dirname e @ [''uploads'']"
  by (simp add: uploadsDir_def path_join_def)

lemma lookup_removeSync:
  "p \<noteq> [] \<Longrightarrow> lookup (removeSync p fsys) q = (if prefix p q then None else lookup fsys q)"
  by (induction fsys) (auto simp add: removeSync_def lookup_def)

lemma keys_removeSync:
  "map fst (removeSync p fsys) = filter (\<lambda>q. \<not> prefix p q) (map fst fsys)"
  by (induction fsys) (auto simp add: removeSync_def)


lemma writeFileSync_Inr:
  "writeFileSync p d fsys = Inr fsys' \<Longrightarrow>
   fsys' = AList.update p (File d) fsys \<and> p \<noteq> [] \<and>
   lookup fsys (butlast p) = Some Dir \<and> lookup fsys p \<noteq> Some Dir"
  by (auto simp add: writeFileSync_def parentError_def lookup_def
      split: option.splits node.splits if_splits)


lemma lookup_update:
  "p \<noteq> [] \<Longrightarrow> lookup (AList.update p n fsys) q = (if q = p then Some n else lookup fsys q)"
  by (simp add: lookup_def update_conv')

lemma lookup_writeFileSync:
  "writeFileSync p d fsys = Inr fsys' \<Longrightarrow>
   lookup fsys' q = (if q = p then Some (File d) else lookup fsys q)"
  using writeFileSync_Inr [of p d fsys fsys'] by (simp add: lookup_update)


lemma mkdirSync_Inr:
  "mkdirSync p fsys = Inr fsys' \<Longrightarrow>
   fsys' = fsys @ [(p, Dir)] \<and> p \<noteq> [] \<and> map_of fsys p = None"
  by (auto simp add: mkdirSync_def lookup_def split: option.splits if_splits)

lemma lookup_append_Dir:
  "map_of fsys p = None \<Longrightarrow>
   lookup (fsys @ [(p, Dir)]) q = (if q = p \<and> q \<noteq> [] then Some Dir else lookup fsys q)"
  by (auto simp add: lookup_def map_add_def split: option.splits)

lemma mkdirSync_keeps:
  "mkdirSync p fsys = Inr fsys' \<Longrightarrow> lookup fsys q = Some n \<Longrightarrow> lookup fsys' q = Some n"
  using mkdirSync_Inr [of p fsys fsys']
  by (auto simp add: lookup_def map_add_def split: option.splits if_splits)



lemma files_logLine: "files (logLine l st) = files st"
  by (simp add: logLine_def)

lemma files_registerFonts: "files (foldl (registerFontFile d) st fl) = files st"
  by (induction fl arbitrary: st) (auto simp add: registerFontFile_def Let_def files_logLine)

lemma loadAndRegisterFonts_files: "loadAndRegisterFonts e st = Inr st1 \<Longrightarrow> files st1 = files st"
  by (auto simp add: loadAndRegisterFonts_def Let_def files_logLine files_registerFonts
      split: if_splits sum.splits)

subsection \<open>The clean-up\<close>

lemma lookup_remove_items:
  "lookup (foldl (\<lambda>f item. removeSync (u @ [item]) f) fsys items) q =
     (if \<exists>i \<in> set items. prefix (u @ [i]) q then None else lookup fsys q)"
  by (induction items arbitrary: fsys) (auto simp add: lookup_removeSync)




lemma mkdirsFrom_keeps:
  "lookup fsys q = Some n \<Longrightarrow> lookup (snd (mkdirsFrom b segs fsys)) q = Some n"
proof (induction segs arbitrary: b fsys)
  case Nil
  then show ?case by simp
next
  case (Cons seg segs)
  show ?case
  proof (cases "lookup fsys (b @ [seg])")
    case None
    then have m: "map_of fsys (b @ [seg]) = None" by (simp add: lookup_def)
    have "lookup (fsys @ [(b @ [seg], Dir)]) q = Some n"
      using Cons.prems None by (auto simp add: lookup_append_Dir [OF m])
    then show ?thesis using None Cons.IH by simp
  next
    case (Some a)
    then show ?thesis using Cons by (cases a) auto
  qed
qed

lemma emptyDirSync_keeps:
  assumes "lookup fsys q = Some n" and "\<not> prefix u q"
  shows "lookup (snd (emptyDirSync u fsys)) q = Some n"
proof (cases "readdirSync fsys u")
  case (Inl x)
  then show ?thesis using assms(1) by (simp add: emptyDirSync_def mkdirsFrom_keeps)
next
  case (Inr items)
  have "\<And>i. \<not> prefix (u @ [i]) q"
    using assms(2) by (metis append_prefixD)
  then show ?thesis using Inr assms(1) by (simp add: emptyDirSync_def lookup_remove_items)
qed


lemma cleanup_keeps:
  assumes "lookup (files st) q = Some n"
    and "\<not> prefix (uploadsDir e) q" and "\<not> prefix (certificatesDir e) q"
    and "\<not> prefix (zipPath e) q"
  shows "lookup (files (cleanup v e st)) q = Some n"
proof -
  have z: "zipPath e \<noteq> []" and cd: "certificatesDir e \<noteq> []"
    by (simp_all add: zipPath_eq certificatesDir_eq)
  show ?thesis
  proof (cases v)
    case V1
    obtain r f1 where e: "emptyDirSync (uploadsDir e) (files st) = (r, f1)"
      by (cases "emptyDirSync (uploadsDir e) (files st)") auto
    from emptyDirSync_keeps [OF assms(1) assms(2)] e have "lookup f1 q = Some n" by simp
    then show ?thesis using V1 e assms(3,4)
      by (cases r) (simp_all add: cleanup_def files_logLine lookup_removeSync z cd)
  next
    case V2
    then show ?thesis using assms
      by (simp add: cleanup_def lookup_removeSync z cd)
  qed
qed

subsection \<open>The way through the handler\<close>

lemma handler_delivery:
  assumes "generate_certificates v e out req st = (r, st')"
    and "r = Download n b \<or> r = Send 500 ''An error occurred while downloading the ZIP file.''"
  shows "\<exists>tp pp. template req = Some tp \<and> participants req = Some pp \<and>
     tryGenerate v e out req tp pp st = (Inr r, st')"
  using assms
  by (auto simp add: generate_certificates_def split: option.splits if_splits prod.splits sum.splits)

lemma tryGenerate_delivery:
  assumes "tryGenerate v e out req tp pp st = (Inr r, st')"
    and "r = Download n b \<or> r = Send 500 ''An error occurred while downloading the ZIP file.''"
  shows "\<exists>st1 tmpl text f2.
     loadAndRegisterFonts e st = Inr st1 \<and>
     loadImage e (files st1) tp = Inr tmpl \<and>
     readFileSync (files st1) pp = Inr text \<and>
     generateAndZip v e req tmpl (participantNames text) (files st1) = (None, f2) \<and>
     download v e out (st1\<lparr>files := f2\<rparr>) = (r, st')"
  using assms
  by (auto simp add: tryGenerate_def split: option.splits if_splits prod.splits sum.splits)

lemma download_cleanup:
  assumes "download v e out st = (r, st')"
    and "r = Download n b \<or> r = Send 500 ''An error occurred while downloading the ZIP file.''"
  shows "\<exists>st0. files st0 = files st \<and> st' = cleanup v e st0"
proof -
  have l: "files (logLine ''Error sending ZIP file'' st) = files st"
    by (rule files_logLine)
  from assms have "st' = cleanup v e st \<or> st' = cleanup v e (logLine ''Error sending ZIP file'' st)"
    by (auto simp add: download_def split: sum.splits stream_outcome.splits)
  with l show ?thesis by blast
qed

lemma split_only_separators: "set s \<subseteq> {c} \<Longrightarrow> set (split c s) \<subseteq> {[]}"
proof (induction s)
  case Nil
  then show ?case by simp
next
  case (Cons x xs)
  then show ?case by (cases "split c xs") auto
qed

lemma participantNames_of_newlines: "set t \<subseteq> {CHR 0x0A} \<Longrightarrow> participantNames t = []"
  using split_only_separators [of t "CHR 0x0A"]
  by (auto simp add: participantNames_def filter_empty_conv)

lemma readFileSync_exists: "readFileSync fsys p = Inr d \<Longrightarrow> existsSync fsys p"
  by (auto simp add: readFileSync_def existsSync_def split: option.splits node.splits)

lemma loadImage_exists: "loadImage e fsys p = Inr im \<Longrightarrow> existsSync fsys p"
  by (auto simp add: loadImage_def split: sum.splits dest: readFileSync_exists)

lemma generateAndZip_single:
  assumes "generateAndZip v e req tmpl [raw] fsys = (None, f2)"
  shows "\<exists>f1 fg es.
     (\<forall>q n. lookup fsys q = Some n \<longrightarrow> lookup f1 q = Some n) \<and>
     writeFileSync (path_join (certificatesDir e) (normalizeName raw @ ''.png''))
       (toBuffer e (drawCertificate v e req tmpl (normalizeName raw))) f1 = Inr fg \<and>
     writeFileSync (zipPath e) (zipBytes e es) fg = Inr f2"
proof -
  let ?m = "if \<not> existsSync fsys (certificatesDir e)
            then mkdirSync (certificatesDir e) fsys else Inr fsys"
  from assms obtain f1 where m: "?m = Inr f1"
    by (cases ?m) (auto simp add: generateAndZip_def)
  then have k: "\<forall>q n. lookup fsys q = Some n \<longrightarrow> lookup f1 q = Some n"
    by (auto split: if_splits dest: mkdirSync_keeps)
  from assms m show ?thesis
    using k
    by (auto simp add: generateAndZip_def generateCertificate_def Let_def
        split: sum.splits option.splits prod.splits)
qed

subsection \<open>Claims about the clean-up and the empty list\<close>




text \<open>
  C5 (as amended). When the participants file holds no line with a character in
  it (it is empty, or holds line feeds only) and the request is otherwise served
  (both files are uploaded, the fonts load and the template decodes), the answer
  is 400 with \<^verbatim>\<open>{error: 'The participants list is empty.'}\<close> and no file is
  written, created or removed.
\<close>

theorem empty_participants_list_is_rejected:
  assumes "template req = Some tp" and "participants req = Some pp"
    and "loadAndRegisterFonts e st = Inr st1"
    and "loadImage e (files st) tp = Inr tmpl"
    and "readFileSync (files st) pp = Inr ptext"
    and "set ptext \<subseteq> {CHR 0x0A}"
  shows "fst (generate_certificates v e out req st) =
       Json 400 (JObject [(''error'', JString ''The participants list is empty.'')]) \<and>
     files (snd (generate_certificates v e out req st)) = files st"
proof -
  have f: "files st1 = files st" using assms(3) by (rule loadAndRegisterFonts_files)
  have x: "existsSync (files st) tp" "existsSync (files st) pp"
    using assms(4,5) by (auto dest: loadImage_exists readFileSync_exists)
  have n: "participantNames ptext = []" using assms(6) by (rule participantNames_of_newlines)
  have "tryGenerate v e out req tp pp st =
      (Inr (Json 400 (errorBody ''The participants list is empty.'')), st1)"
    using assms(3,4,5) n by (simp add: tryGenerate_def f)
  then show ?thesis
    using assms(1,2) x f by (simp add: generate_certificates_def errorBody_def)
qed

theorem empty_participants_list_is_rejected_witness:
  "fst (generate_certificates V1 demo_env Delivered (demo_request None None)
         (demo_server [CHR 0x0A, CHR 0x0A])) =
     Json 400 (JObject [(''error'', JString ''The participants list is empty.'')]) \<and>
   files (snd (generate_certificates V1 demo_env Delivered (demo_request None None)
         (demo_server [CHR 0x0A, CHR 0x0A]))) = demo_files [CHR 0x0A, CHR 0x0A]"
proof -
  let ?st = "demo_server [CHR 0x0A, CHR 0x0A]"
  have t: "template (demo_request None None) = Some [''srv'', ''uploads'', ''t1'']"
    and p: "participants (demo_request None None) = Some [''srv'', ''uploads'', ''p1'']"
    by (simp_all add: demo_request_def)
  have l: "loadAndRegisterFonts demo_env ?st = Inr (logLine ''Fonts directory not found'' ?st)"
    by code_simp
  have i: "loadImage demo_env (files ?st) [''srv'', ''uploads'', ''t1''] =
      Inr \<lparr>width = 1000, height = 700, pixels = ''IMG''\<rparr>"
    by code_simp
  have r: "readFileSync (files ?st) [''srv'', ''uploads'', ''p1''] = Inr [CHR 0x0A, CHR 0x0A]"
    by code_simp
  have s: "set [CHR 0x0A, CHR 0x0A] \<subseteq> {CHR 0x0A}" by simp
  from empty_participants_list_is_rejected [OF t p l i r s, of V1 Delivered]
  show ?thesis by (simp add: demo_server_def)
qed

text \<open>
  C5 as stated fails for a line of white space: it is blank, but
  \<^verbatim>\<open>filter(Boolean)\<close> keeps it, the answer is not 400, and a certificate named
  \<^verbatim>\<open>.png\<close> is drawn for the empty name.
\<close>

theorem blank_line_is_not_discarded:
  "split (CHR 0x0A) ''  '' = [''  ''] \<and>
   spec_blank_line ''  '' \<and>
   participantNames ''  '' = [''  ''] \<and>
   fst (generate_certificates V1 demo_env Delivered (demo_request None None)
         (demo_server ''  '')) =
     Download ''certificates.zip'' ''.png:PNG ;''"
  by code_simp

subsection \<open>Claim about the path of a certificate\<close>

text \<open>
  C9. The normalized name goes into the path of the PNG as it is. For the
  participant line \<^verbatim>\<open>../x\<close> the path \<^verbatim>\<open>path.join(certificatesDir, '../x.png')\<close>
  is \<^verbatim>\<open>x.png\<close> in \<^verbatim>\<open>__dirname\<close>, outside the certificates directory, and a
  request with that line that is answered with the archive has written the PNG
  there, where it stays after the clean-up.
\<close>

theorem certificate_written_outside_certificates_dir:
  assumes "participants req = Some pp"
    and "lookup (files st) pp = Some (File ''../x'')"
    and "generate_certificates v e out req st = (Download n b, st')"
  shows "path_join (certificatesDir e) (normalizeName ''../x'' @ ''.png'') = dirname e @ [''x.png''] \<and>
     \<not> prefix (certificatesDir e) (dirname e @ [''x.png'']) \<and>
     (\<exists>tmpl. lookup (files st') (dirname e @ [''x.png'']) =
        Some (File (toBuffer e (drawCertificate v e req tmpl (normalizeName ''../x'')))))"
proof -
  let ?q = "dirname e @ [''x.png'']"
  have d: "Download n b = Download n b \<or>
      Download n b = Send 500 ''An error occurred while downloading the ZIP file.''"
    by simp
  from handler_delivery [OF assms(3) d] assms(1) obtain tp where
    t: "tryGenerate v e out req tp pp st = (Inr (Download n b), st')" by auto
  from tryGenerate_delivery [OF t d] obtain st1 tmpl ptext f2 where
    l: "loadAndRegisterFonts e st = Inr st1"
    and r: "readFileSync (files st1) pp = Inr ptext"
    and g: "generateAndZip v e req tmpl (participantNames ptext) (files st1) = (None, f2)"
    and dl: "download v e out (st1\<lparr>files := f2\<rparr>) = (Download n b, st')"
    by blast
  have "files st1 = files st" using l by (rule loadAndRegisterFonts_files)
  with r assms(2) have "ptext = ''../x''" by (simp add: readFileSync_def)
  moreover have "participantNames ''../x'' = [''../x'']" by code_simp
  ultimately have g1: "generateAndZip v e req tmpl [''../x''] (files st1) = (None, f2)"
    using g by simp
  have nn: "normalizeName ''../x'' = ''../x''" by code_simp
  have pj: "path_join (certificatesDir e) (normalizeName ''../x'' @ ''.png'') = ?q"
    by (simp add: nn certificatesDir_eq path_join_def)
  from generateAndZip_single [OF g1] obtain f1 fg es where
    w1: "writeFileSync (path_join (certificatesDir e) (normalizeName ''../x'' @ ''.png''))
       (toBuffer e (drawCertificate v e req tmpl (normalizeName ''../x''))) f1 = Inr fg"
    and w2: "writeFileSync (zipPath e) (zipBytes e es) fg = Inr f2"
    by blast
  let ?png = "toBuffer e (drawCertificate v e req tmpl (normalizeName ''../x''))"
  from w1 have "lookup fg ?q = Some (File ?png)"
    by (simp add: pj lookup_writeFileSync)
  with w2 have k: "lookup f2 ?q = Some (File ?png)"
    by (simp add: lookup_writeFileSync zipPath_eq)
  from download_cleanup [OF dl d] obtain st0 where
    s: "files st0 = f2" "st' = cleanup v e st0" by auto
  have "lookup (files (cleanup v e st0)) ?q = Some (File ?png)"
    by (rule cleanup_keeps) (simp_all add: s(1) k uploadsDir_eq certificatesDir_eq zipPath_eq)
  with s(2) have "lookup (files st') ?q = Some (File ?png)" by simp
  moreover have "\<not> prefix (certificatesDir e) ?q" by (simp add: certificatesDir_eq)
  ultimately show ?thesis using pj by blast
qed

theorem certificate_written_outside_certificates_dir_witness:
  "lookup (files (snd (generate_certificates V1 demo_env Delivered (demo_request None None)
       (demo_server ''../x'')))) [''srv'', ''x.png''] = Some (File ''PNG ../x'') \<and>
   \<not> prefix (certificatesDir demo_env) [''srv'', ''x.png'']"
proof -
  let ?h = "generate_certificates V1 demo_env Delivered (demo_request None None)
      (demo_server ''../x'')"
  have p: "participants (demo_request None None) = Some [''srv'', ''uploads'', ''p1'']"
    by (simp add: demo_request_def)
  have l: "lookup (files (demo_server ''../x'')) [''srv'', ''uploads'', ''p1''] =
      Some (File ''../x'')"
    by code_simp
  have f: "fst ?h = Download ''certificates.zip'' []" by code_simp
  then have h: "?h = (Download ''certificates.zip'' [], snd ?h)"
    by (metis prod.collapse)
  have nn: "normalizeName ''../x'' = ''../x''" by code_simp
  have dn: "dirname demo_env = [''srv'']" by (simp add: demo_env_def)
  have tb: "\<And>cv. toBuffer demo_env cv = ''PNG '' @ fillText_text cv"
    by (simp add: demo_env_def)
  from certificate_written_outside_certificates_dir [OF p l h]
  show ?thesis by (simp add: nn dn tb drawCertificate_def Let_def)
qed


subsection \<open>The certificates directory during the loop\<close>














subsection \<open>Claim about the archive\<close>




end
